theory Spec2Isabelle
  imports Main
begin

section \<open>JavaScript values shared by the two Lambda handlers\<close>

text \<open>
  A thrown value, as the handlers inspect it: they read \<open>err.name\<close> and \<open>err.Code\<close>
  (either may be undefined) and forward \<open>JSON.stringify(err)\<close>. The last field is the text
  that \<open>JSON.stringify\<close> yields for the object, i.e. the rendering of its enumerable own
  properties; for a rejection coming from an AWS client it is whatever the client put there.
\<close>

datatype js_error =
  JsError (name: "string option") (Code: "string option") (error_message: string) (json_text: string)

text \<open>
  \<open>new Error(message)\<close>: the name \<open>Error\<close> is inherited from the prototype, there is no
  \<open>Code\<close>, and the own properties \<open>message\<close> and \<open>stack\<close> are not enumerable, so that
  \<open>JSON.stringify\<close> of such an object is the two characters \<open>{}\<close>.
\<close>

definition new_Error :: "string \<Rightarrow> js_error" where
  "new_Error msg = JsError (Some ''Error'') None msg ''{}''"

definition JSON_stringify :: "js_error \<Rightarrow> string" where
  "JSON_stringify err = json_text err"

text \<open>The test \<open>err.name == 'ValidationError' || err.Code == 'ValidationError'\<close>.\<close>

definition is_ValidationError :: "js_error \<Rightarrow> bool" where
  "is_ValidationError err =
     (name err = Some ''ValidationError'' \<or> Code err = Some ''ValidationError'')"

text \<open>Truthiness of a value that is a string or undefined: only a non-empty string is truthy.\<close>

fun truthy :: "string option \<Rightarrow> bool" where
  "truthy None = False"
| "truthy (Some s) = (s \<noteq> [])"

text \<open>A template literal prints an undefined value as the text \<open>undefined\<close>.\<close>

fun template_text :: "string option \<Rightarrow> string" where
  "template_text None = ''undefined''"
| "template_text (Some s) = s"

text \<open>\<open>String.prototype.split\<close> with a one-character separator: never an empty array.\<close>

fun split :: "char \<Rightarrow> string \<Rightarrow> string list" where
  "split sep [] = [[]]"
| "split sep (c # cs) =
     (if c = sep then [] # split sep cs
      else (case split sep cs of
              [] \<Rightarrow> [[c]]
            | seg # segs \<Rightarrow> (c # seg) # segs))"

text \<open>\<open>Array.prototype.pop\<close> (the value it returns) and an indexed read; both give undefined
  (here \<open>None\<close>) where there is no element.\<close>

definition pop :: "'a list \<Rightarrow> 'a option" where
  "pop xs = (if xs = [] then None else Some (last xs))"

definition at_index :: "'a list \<Rightarrow> nat \<Rightarrow> 'a option" where
  "at_index xs i = (if i < length xs then Some (xs ! i) else None)"

section \<open>The correlation table, the AWS services and the observable effects\<close>

text \<open>
  The DynamoDB table of \<open>stack.ts\<close> has partition key \<open>pk\<close> and sort key \<open>sk\<close>, both strings:
  an item is identified by the pair. The items that the handlers write and read carry the
  three string attributes below.
\<close>

record item =
  pk :: string
  sk :: string
  pipeline_job_id :: string

type_synonym key = "string \<times> string"

type_synonym table = "key \<rightharpoonup> item"

record FailureDetails =
  message :: string
  type :: string

record Stack =
  StackName :: "string option"
  StackStatus :: "string option"

record DescribeStacksCommandOutput =
  Stacks :: "Stack list option"

record DetectStackDriftCommandOutput =
  StackDriftDetectionId :: "string option"

text \<open>Every call that leaves a handler, in the order in which it is made.\<close>

datatype effect =
  DescribeStacks string string
| DetectStackDrift string string
| PutItem item
| GetItem key
| PutJobSuccessResult string
| PutJobFailureResult string FailureDetails

text \<open>
  The state a handler runs in: the table, and the calls made so far in this invocation.
\<close>

record world =
  table :: table
  trace :: "effect list"

text \<open>
  What the services answer during one invocation. CloudFormation is asked with the client's
  region and the stack name and either rejects or returns an output. DynamoDB either rejects a
  request or performs it on the table. CodePipeline either rejects a result or accepts it; its
  answer may depend on the calls made before.
\<close>

record env =
  describeStacks :: "string \<Rightarrow> string \<Rightarrow> js_error + DescribeStacksCommandOutput"
  detectStackDrift :: "string \<Rightarrow> string \<Rightarrow> js_error + DetectStackDriftCommandOutput"
  putItem :: "item \<Rightarrow> js_error option"
  getItem :: "key \<Rightarrow> js_error option"
  putJobSuccessResult :: "effect list \<Rightarrow> string \<Rightarrow> js_error option"
  putJobFailureResult :: "effect list \<Rightarrow> string \<Rightarrow> FailureDetails \<Rightarrow> js_error option"

definition emit :: "effect \<Rightarrow> world \<Rightarrow> world" where
  "emit e w = w\<lparr>trace := trace w @ [e]\<rparr>"

fun is_callback :: "effect \<Rightarrow> bool" where
  "is_callback (PutJobSuccessResult j) = True"
| "is_callback (PutJobFailureResult j d) = True"
| "is_callback e = False"

fun is_write :: "effect \<Rightarrow> bool" where
  "is_write (PutItem it) = True"
| "is_write e = False"

fun is_read :: "effect \<Rightarrow> bool" where
  "is_read (GetItem k) = True"
| "is_read e = False"

definition callbacks :: "world \<Rightarrow> effect list" where
  "callbacks w = filter is_callback (trace w)"

definition writes :: "world \<Rightarrow> effect list" where
  "writes w = filter is_write (trace w)"

definition reads :: "world \<Rightarrow> effect list" where
  "reads w = filter is_read (trace w)"

section \<open>The pipeline callback client (both \<open>index.ts\<close> files)\<close>

text \<open>
  \<open>sendSuccess\<close> and \<open>sendFailure\<close> await the CodePipeline call; a rejection propagates to
  the caller. The first component of the result is the thrown error, if any.
\<close>

definition sendSuccess :: "env \<Rightarrow> string \<Rightarrow> world \<Rightarrow> js_error option \<times> world" where
  "sendSuccess env jobId w =
     (putJobSuccessResult env (trace w) jobId, emit (PutJobSuccessResult jobId) w)"

definition sendFailure ::
  "env \<Rightarrow> string \<Rightarrow> FailureDetails \<Rightarrow> world \<Rightarrow> js_error option \<times> world" where
  "sendFailure env jobId details w =
     (putJobFailureResult env (trace w) jobId details, emit (PutJobFailureResult jobId details) w)"

section \<open>The callback Lambda (\<open>callback-lambda/index.ts\<close>)\<close>

text \<open>
  The EventBridge event, with the fields the handler reads: \<open>detail-type\<close>, \<open>account\<close>,
  \<open>region\<close>, and from \<open>detail\<close> the \<open>stack-id\<close>, the \<open>stack-drift-detection-id\<close> and
  \<open>status-details.stack-drift-status\<close>.
\<close>

record event =
  detail_type :: string
  account :: string
  region :: string
  stack_id :: string
  stack_drift_detection_id :: string
  stack_drift_status :: string

definition extractStackNameFromArn :: "string \<Rightarrow> string option" where
  "extractStackNameFromArn stackArn =
     (let stackItems = split CHR '':'' stackArn;
          stackId = pop stackItems;
          stackIdItems = map_option (split CHR ''/'') stackId
      in case stackIdItems of
           Some items \<Rightarrow> at_index items 1
         | None \<Rightarrow> Some [])"

definition lookup_key :: "event \<Rightarrow> key" where
  "lookup_key ev =
     (event.account ev @ ''#'' @ event.region ev @ ''#''
        @ template_text (extractStackNameFromArn (stack_id ev)),
      stack_drift_detection_id ev)"

text \<open>
  \<open>fetchCallbackDetails\<close>: one \<open>getItem\<close> under the key \<open>(pk, sk)\<close>; a rejection is caught and
  leaves \<open>jobId\<close> undefined, as does a response without an item.
\<close>

definition fetchCallbackDetails :: "env \<Rightarrow> event \<Rightarrow> world \<Rightarrow> string option \<times> world" where
  "fetchCallbackDetails env ev w =
     (let k = lookup_key ev;
          w' = emit (GetItem k) w
      in case getItem env k of
           Some err \<Rightarrow> (None, w')
         | None \<Rightarrow>
             (case table w k of
                None \<Rightarrow> (None, w')
              | Some it \<Rightarrow> (Some (pipeline_job_id it), w')))"

definition drifted_message :: "event \<Rightarrow> string" where
  "drifted_message ev =
     ''Stack '' @ stack_id ev @ '' has DRIFTED from its template configuration''"

definition callback_handler :: "env \<Rightarrow> event \<Rightarrow> world \<Rightarrow> js_error option \<times> world" where
  "callback_handler env ev w =
     (if detail_type ev = ''CloudFormation Drift Detection Status Change'' then
        (case fetchCallbackDetails env ev w of
           (None, w1) \<Rightarrow> (None, w1)
         | (Some jobId, w1) \<Rightarrow>
             (if truthy (Some jobId) then
                (if stack_drift_status ev = ''DRIFTED'' then
                   sendFailure env jobId
                     \<lparr>message = drifted_message ev, type = ''JobFailed''\<rparr> w1
                 else if stack_drift_status ev = ''IN_SYNC'' then
                   sendSuccess env jobId w1
                 else (None, w1))
              else (None, w1)))
      else (None, w))"

section \<open>The drift detection Lambda (\<open>drift-detect-lambda/index.ts\<close>)\<close>

text \<open>
  The handler reads the job id and the user parameters (a JSON object with \<open>account\<close>,
  \<open>region\<close> and \<open>stackName\<close>) from the CodePipeline event; the model starts from these.
\<close>

record params =
  account :: string
  region :: string
  stackName :: string

definition allowed_dd_status_list :: "string list" where
  "allowed_dd_status_list =
     [''CREATE_COMPLETE'', ''UPDATE_COMPLETE'', ''UPDATE_ROLLBACK_COMPLETE'',
      ''UPDATE_ROLLBACK_FAILED'']"

text \<open>How a \<open>try\<close> block ends: it throws, it returns from the handler, or it falls through.\<close>

datatype 'a completion = Thrown js_error | Returned | Next 'a

text \<open>
  The body of both \<open>catch\<close> clauses that follow a CloudFormation call (lines 58-72 and
  110-124): a validation error is reported as success, anything else as failure with the
  stringified error; a rejection of the report itself leaves the handler.
\<close>

definition catch_report :: "env \<Rightarrow> string \<Rightarrow> js_error \<Rightarrow> world \<Rightarrow> js_error option \<times> world" where
  "catch_report env jobId err w =
     (if is_ValidationError err then sendSuccess env jobId w
      else sendFailure env jobId \<lparr>message = JSON_stringify err, type = ''JobFailed''\<rparr> w)"

text \<open>
  The second \<open>try\<close> block (lines 84-109). The call of \<open>sendSuccess\<close> for a stack whose
  status does not allow drift detection is inside the block, so its rejection is thrown to
  the \<open>catch\<close> clause of the block.
\<close>

definition detect_block ::
  "env \<Rightarrow> string \<Rightarrow> params \<Rightarrow> DescribeStacksCommandOutput \<Rightarrow> world
     \<Rightarrow> DetectStackDriftCommandOutput completion \<times> world" where
  "detect_block env jobId ps stacksOutput w =
     (case Stacks stacksOutput of
        Some (s # rest) \<Rightarrow>
          (if StackName s = Some (stackName ps) then
             (if truthy (StackStatus s)
                 \<and> template_text (StackStatus s) \<in> set allowed_dd_status_list then
                (let w' = emit (DetectStackDrift (params.region ps) (stackName ps)) w
                 in case detectStackDrift env (params.region ps) (stackName ps) of
                      Inl err \<Rightarrow> (Thrown err, w')
                    | Inr driftResp \<Rightarrow> (Next driftResp, w'))
              else
                (case sendSuccess env jobId w of
                   (Some err, w') \<Rightarrow> (Thrown err, w')
                 | (None, w') \<Rightarrow> (Returned, w')))
           else (Thrown (new_Error ''Unknown error: Check DescribeStacks output''), w))
      | _ \<Rightarrow> (Thrown (new_Error ''Unknown error: Check DescribeStacks output''), w))"

definition correlation_item :: "string \<Rightarrow> params \<Rightarrow> string \<Rightarrow> item" where
  "correlation_item jobId ps driftDetectionId =
     \<lparr>pk = params.account ps @ ''#'' @ params.region ps @ ''#'' @ stackName ps,
      sk = driftDetectionId,
      pipeline_job_id = jobId\<rparr>"

text \<open>
  The third \<open>try\<close> block (lines 126-150): the first component is the error thrown, if any.
  A successful \<open>putItem\<close> stores the item under its \<open>(pk, sk)\<close>, replacing an item with the
  same key.
\<close>

definition persist_block ::
  "env \<Rightarrow> string \<Rightarrow> params \<Rightarrow> DetectStackDriftCommandOutput \<Rightarrow> world
     \<Rightarrow> js_error option \<times> world" where
  "persist_block env jobId ps driftResp w =
     (case StackDriftDetectionId driftResp of
        Some driftDetectionId \<Rightarrow>
          (if truthy (Some driftDetectionId) then
             (let it = correlation_item jobId ps driftDetectionId;
                  w' = emit (PutItem it) w
              in case putItem env it of
                   Some err \<Rightarrow> (Some err, w')
                 | None \<Rightarrow> (None, w'\<lparr>table := (table w')((pk it, sk it) \<mapsto> it)\<rparr>))
           else (Some (new_Error ''Unknown error: Drift detection id missing''), w))
      | None \<Rightarrow> (Some (new_Error ''Unknown error: Drift detection id missing''), w))"

definition drift_detect_handler ::
  "env \<Rightarrow> string \<Rightarrow> params \<Rightarrow> world \<Rightarrow> js_error option \<times> world" where
  "drift_detect_handler env jobId ps w =
     (let w1 = emit (DescribeStacks (params.region ps) (stackName ps)) w
      in case describeStacks env (params.region ps) (stackName ps) of
           Inl err \<Rightarrow> catch_report env jobId err w1
         | Inr stacksOutput \<Rightarrow>
             (case detect_block env jobId ps stacksOutput w1 of
                (Thrown err, w2) \<Rightarrow> catch_report env jobId err w2
              | (Returned, w2) \<Rightarrow> (None, w2)
              | (Next driftResp, w2) \<Rightarrow>
                  (case persist_block env jobId ps driftResp w2 of
                     (Some err, w3) \<Rightarrow>
                       sendFailure env jobId
                         \<lparr>message = JSON_stringify err, type = ''JobFailed''\<rparr> w3
                   | (None, w3) \<Rightarrow> (None, w3))))"

section \<open>Invocations and concrete inputs\<close>

text \<open>An invocation starts on the current table with no call made yet.\<close>

definition start :: "table \<Rightarrow> world" where
  "start t = \<lparr>table = t, trace = []\<rparr>"

text \<open>Services that accept every request; the CloudFormation answers are replaced where an
  example needs them.\<close>

definition quiet :: env where
  "quiet = \<lparr>describeStacks = (\<lambda>r n. Inr \<lparr>Stacks = Some []\<rparr>),
            detectStackDrift = (\<lambda>r n. Inr \<lparr>StackDriftDetectionId = None\<rparr>),
            putItem = (\<lambda>it. None), getItem = (\<lambda>k. None),
            putJobSuccessResult = (\<lambda>h j. None), putJobFailureResult = (\<lambda>h j d. None)\<rparr>"

text \<open>The event and the stored record of the specification's example; the record is stored
  under the drift detection id \<open>d-1\<close> of the event.\<close>

definition example_event :: event where
  "example_event =
     \<lparr>detail_type = ''CloudFormation Drift Detection Status Change'',
      account = ''123456789012'', region = ''ap-northeast-2'',
      stack_id = ''arn:aws:cloudformation:ap-northeast-2:123456789012:stack/example-stack/11111111'',
      stack_drift_detection_id = ''d-1'',
      stack_drift_status = ''DRIFTED''\<rparr>"

definition example_record :: item where
  "example_record =
     \<lparr>pk = ''123456789012#ap-northeast-2#example-stack'', sk = ''d-1'',
      pipeline_job_id = ''job-42''\<rparr>"

definition example_table :: table where
  "example_table = [(''123456789012#ap-northeast-2#example-stack'', ''d-1'') \<mapsto> example_record]"

text \<open>The parameters of an invocation of the drift detection Lambda, and CloudFormation
  answers for them: one stack of the requested name in a given status.\<close>

definition example_params :: params where
  "example_params = \<lparr>account = ''1'', region = ''us-east-1'', stackName = ''demo-stack''\<rparr>"

definition stack_in :: "string \<Rightarrow> string \<Rightarrow> string \<Rightarrow> js_error + DescribeStacksCommandOutput" where
  "stack_in status r n = Inr \<lparr>Stacks = Some [\<lparr>StackName = Some n, StackStatus = Some status\<rparr>]\<rparr>"

text \<open>The stack is \<open>UPDATE_COMPLETE\<close> and the drift detection starts with the given id.\<close>

definition scanning :: "string option \<Rightarrow> env" where
  "scanning scanId =
     quiet\<lparr>describeStacks := stack_in ''UPDATE_COMPLETE'',
           detectStackDrift := (\<lambda>r n. Inr \<lparr>StackDriftDetectionId = scanId\<rparr>)\<rparr>"

text \<open>The stack is \<open>UPDATE_IN_PROGRESS\<close> and CodePipeline does not take the success result:
  the request times out.\<close>

definition timeout_error :: js_error where
  \<open>timeout_error =
     JsError (Some ''TimeoutError'') None ''socket hang up'' ''{"name":"TimeoutError"}''\<close>

definition rejecting :: env where
  "rejecting =
     quiet\<lparr>describeStacks := stack_in ''UPDATE_IN_PROGRESS'',
           putJobSuccessResult := (\<lambda>h j. Some timeout_error)\<rparr>"

text \<open>The state after two invocations for the same parameters, one after the other.\<close>

definition two_runs :: "env \<Rightarrow> string \<Rightarrow> env \<Rightarrow> string \<Rightarrow> params \<Rightarrow> table \<Rightarrow> world" where
  "two_runs env1 job1 env2 job2 ps t =
     snd (drift_detect_handler env2 job2 ps
            (start (table (snd (drift_detect_handler env1 job1 ps (start t))))))"

text \<open>Two runs make the same calls and end the same way.\<close>

definition same_calls :: "'a \<times> world \<Rightarrow> 'a \<times> world \<Rightarrow> bool" where
  "same_calls r r' = (fst r = fst r' \<and> trace (snd r) = trace (snd r'))"

text \<open>
  The tables the two handlers can produce: the table is empty when it is created, and it
  changes only through invocations of the handlers. CodePipeline invokes the drift detection
  Lambda with the id of the waiting job, which is not the empty string.
\<close>

inductive reachable :: "table \<Rightarrow> bool" where
  empty: "reachable Map.empty"
| initiate: "reachable t \<Longrightarrow> jobId \<noteq> [] \<Longrightarrow>
     reachable (table (snd (drift_detect_handler env jobId ps (start t))))"
| callback: "reachable t \<Longrightarrow> reachable (table (snd (callback_handler env ev (start t))))"

section \<open>Splitting strings\<close>

lemma split_not_Nil: "split sep s \<noteq> []"
  by (induction s) (auto split: list.splits)

lemma split_no_sep: "sep \<notin> set s \<Longrightarrow> split sep s = [s]"
  by (induction s) auto

lemma split_append: "split sep (a @ sep # b) = split sep a @ split sep b"
proof (induction a)
  case Nil
  show ?case by simp
next
  case (Cons c a)
  obtain seg segs where "split sep a = seg # segs"
    using split_not_Nil [of sep a] by (cases "split sep a") auto
  with Cons show ?case by simp
qed

lemma last_split: "sep \<notin> set b \<Longrightarrow> last (split sep (a @ sep # b)) = b"
  by (simp add: split_append split_no_sep split_not_Nil)

lemma pop_split: "pop (split sep s) = Some (last (split sep s))"
  by (simp add: pop_def split_not_Nil)

lemma extract_as_segments:
  "extractStackNameFromArn arn = at_index (split CHR ''/'' (last (split CHR '':'' arn))) 1"
  by (simp add: extractStackNameFromArn_def pop_split)

lemma extract_last_segment:
  assumes "CHR '':'' \<notin> set rest"
  shows "extractStackNameFromArn (prefix @ CHR '':'' # rest) = at_index (split CHR ''/'' rest) 1"
  unfolding extractStackNameFromArn_def Let_def pop_split last_split [OF assms] by simp

lemma split_three:
  assumes "sep \<notin> set a" and "sep \<notin> set b"
  shows "split sep (a @ sep # b @ sep # c) = a # b # split sep c"
  by (simp add: split_append split_no_sep assms)

section \<open>The callback Lambda: properties\<close>

lemma trace_emit: "trace (emit e w) = trace w @ [e]" and table_emit: "table (emit e w) = table w"
  by (simp_all add: emit_def)

lemma example_key: "lookup_key example_event = (''123456789012#ap-northeast-2#example-stack'', ''d-1'')"
  by (simp add: lookup_key_def example_event_def extractStackNameFromArn_def pop_def at_index_def)

text \<open>
  C9. For an identifier \<open>prefix:stack/name/suffix\<close> whose name has no colon and no slash
  and whose suffix has no colon, \<open>extractStackNameFromArn\<close> returns the name: the second
  slash-delimited segment of the last colon-delimited segment.
\<close>

theorem extractStackNameFromArn_well_formed:
  assumes "CHR '':'' \<notin> set nm" and "CHR ''/'' \<notin> set nm" and "CHR '':'' \<notin> set suffix"
  shows "extractStackNameFromArn (prefix @ '':stack/'' @ nm @ ''/'' @ suffix) = Some nm
         \<and> at_index (split CHR ''/''
               (last (split CHR '':'' (prefix @ '':stack/'' @ nm @ ''/'' @ suffix)))) 1 = Some nm"
proof -
  define rest where "rest = ''stack'' @ CHR ''/'' # nm @ CHR ''/'' # suffix"
  have arn: "prefix @ '':stack/'' @ nm @ ''/'' @ suffix = prefix @ CHR '':'' # rest"
    by (simp add: rest_def)
  have "CHR '':'' \<notin> set rest"
    using assms by (simp add: rest_def)
  then have "extractStackNameFromArn (prefix @ CHR '':'' # rest) = at_index (split CHR ''/'' rest) 1"
    by (rule extract_last_segment)
  moreover have "split CHR ''/'' rest = ''stack'' # nm # split CHR ''/'' suffix"
    unfolding rest_def by (rule split_three) (simp_all add: assms)
  ultimately have "extractStackNameFromArn (prefix @ '':stack/'' @ nm @ ''/'' @ suffix) = Some nm"
    by (simp only: arn) (simp add: at_index_def)
  then show ?thesis
    by (simp only: extract_as_segments)
qed

theorem extractStackNameFromArn_well_formed_witness:
  "extractStackNameFromArn
     ''arn:aws:cloudformation:ap-northeast-2:123456789012:stack/example-stack/11111111''
   = Some ''example-stack''"
  using extractStackNameFromArn_well_formed
    [of "''example-stack''" "''11111111''" "''arn:aws:cloudformation:ap-northeast-2:123456789012''"]
  by simp

text \<open>
  The dispatch on the drift status, for a record that holds a non-empty job id.
\<close>

lemma callback_handler_dispatch_job:
  assumes "detail_type ev = ''CloudFormation Drift Detection Status Change''"
    and "getItem env (lookup_key ev) = None"
    and "t (lookup_key ev) = Some it"
    and "pipeline_job_id it \<noteq> []"
  shows "callbacks (snd (callback_handler env ev (start t))) =
          (if stack_drift_status ev = ''DRIFTED'' then
             [PutJobFailureResult (pipeline_job_id it)
                \<lparr>message = ''Stack '' @ stack_id ev @ '' has DRIFTED from its template configuration'',
                 type = ''JobFailed''\<rparr>]
           else if stack_drift_status ev = ''IN_SYNC'' then
             [PutJobSuccessResult (pipeline_job_id it)]
           else [])"
  using assms
  by (simp add: callback_handler_def fetchCallbackDetails_def sendFailure_def sendSuccess_def
      callbacks_def trace_emit table_emit start_def drifted_message_def Let_def)

text \<open>
  A record whose job id is the empty string is treated like no record: the test
  \<open>if (jobId)\<close> of line 37 fails and no callback is made.
\<close>

lemma callback_handler_empty_job_id:
  assumes "t (lookup_key ev) = Some it" and "pipeline_job_id it = []"
  shows "callbacks (snd (callback_handler env ev (start t))) = []"
  using assms
  by (simp add: callback_handler_def fetchCallbackDetails_def callbacks_def trace_emit table_emit
      start_def Let_def split: option.splits)

text \<open>
  C6. An event of another category, or one whose lookup is rejected or finds no item, leads
  to no callback and no write; the table is unchanged and the handler resolves.
\<close>

theorem callback_handler_discards:
  assumes "detail_type ev \<noteq> ''CloudFormation Drift Detection Status Change''
           \<or> getItem env (lookup_key ev) \<noteq> None
           \<or> t (lookup_key ev) = None"
  shows "callbacks (snd (callback_handler env ev (start t))) = []
         \<and> writes (snd (callback_handler env ev (start t))) = []
         \<and> table (snd (callback_handler env ev (start t))) = t
         \<and> fst (callback_handler env ev (start t)) = None"
  using assms
  by (auto simp add: callback_handler_def fetchCallbackDetails_def
      callbacks_def writes_def trace_emit table_emit start_def Let_def split: option.splits)

theorem callback_handler_discards_witness:
  "callbacks (snd (callback_handler quiet (example_event\<lparr>detail_type := ''Scheduled Event''\<rparr>)
      (start example_table))) = []
   \<and> callbacks (snd (callback_handler quiet example_event (start Map.empty))) = []
   \<and> callbacks (snd (callback_handler (quiet\<lparr>getItem := (\<lambda>k. Some timeout_error)\<rparr>) example_event
         (start example_table))) = []
   \<and> writes (snd (callback_handler quiet example_event (start Map.empty))) = []"
  using callback_handler_discards
      [of "example_event\<lparr>detail_type := ''Scheduled Event''\<rparr>" quiet example_table]
    callback_handler_discards [of example_event quiet Map.empty]
    callback_handler_discards
      [of example_event "quiet\<lparr>getItem := (\<lambda>k. Some timeout_error)\<rparr>" example_table]
  by (simp add: example_event_def quiet_def)


text \<open>
  C4 (as amended). The lookup is made under the pair of the key \<open>account#region#name\<close> and
  the drift detection id of the event, the sort key of the table. Two events with the same
  account, region and parsed stack name have the same lookup key exactly when their drift
  detection ids are equal, and then \<open>fetchCallbackDetails\<close> gives the same job id for both.
\<close>

theorem lookup_keyed_by_target_and_scan_id:
  assumes "event.account e1 = event.account e2" and "event.region e1 = event.region e2"
    and "extractStackNameFromArn (stack_id e1) = extractStackNameFromArn (stack_id e2)"
  shows "((lookup_key e1 = lookup_key e2)
            = (stack_drift_detection_id e1 = stack_drift_detection_id e2))
         \<and> (stack_drift_detection_id e1 = stack_drift_detection_id e2
              \<longrightarrow> fetchCallbackDetails env e1 w = fetchCallbackDetails env e2 w)"
  using assms by (simp add: lookup_key_def fetchCallbackDetails_def)

theorem lookup_keyed_by_target_and_scan_id_witness:
  "lookup_key (example_event\<lparr>stack_id := ''arn:aws:cloudformation:ap-northeast-2:123456789012:stack/example-stack/22222222''\<rparr>)
     = lookup_key example_event
   \<and> fetchCallbackDetails quiet
        (example_event\<lparr>stack_id := ''arn:aws:cloudformation:ap-northeast-2:123456789012:stack/example-stack/22222222''\<rparr>)
        (start example_table)
     = fetchCallbackDetails quiet example_event (start example_table)"
proof -
  let ?e = "example_event\<lparr>stack_id := ''arn:aws:cloudformation:ap-northeast-2:123456789012:stack/example-stack/22222222''\<rparr>"
  have "extractStackNameFromArn (stack_id ?e) = extractStackNameFromArn (stack_id example_event)"
    by (simp add: example_event_def extractStackNameFromArn_def pop_def at_index_def)
  with lookup_keyed_by_target_and_scan_id [of ?e example_event quiet "start example_table"]
  show ?thesis by simp
qed

text \<open>
  C4 as stated fails: two events that differ only in the drift detection id are looked up
  under different sort keys. With a record stored under \<open>d-1\<close>, the event with \<open>d-1\<close> finds
  the job and reports the failure, the same event with \<open>d-2\<close> finds nothing and makes no
  callback.
\<close>

theorem scan_id_changes_lookup:
  "fst (fetchCallbackDetails quiet example_event (start example_table)) = Some ''job-42''
   \<and> fst (fetchCallbackDetails quiet (example_event\<lparr>stack_drift_detection_id := ''d-2''\<rparr>)
          (start example_table)) = None
   \<and> callbacks (snd (callback_handler quiet example_event (start example_table))) =
       [PutJobFailureResult ''job-42''
          \<lparr>message = ''Stack arn:aws:cloudformation:ap-northeast-2:123456789012:stack/example-stack/11111111 has DRIFTED from its template configuration'',
           type = ''JobFailed''\<rparr>]
   \<and> callbacks (snd (callback_handler quiet (example_event\<lparr>stack_drift_detection_id := ''d-2''\<rparr>)
          (start example_table))) = []"
proof -
  let ?e = "example_event\<lparr>stack_drift_detection_id := ''d-2''\<rparr>"
  have k: "lookup_key ?e = (''123456789012#ap-northeast-2#example-stack'', ''d-2'')"
    using example_key by (simp add: lookup_key_def)
  have f1: "fetchCallbackDetails quiet example_event (start example_table) =
              (Some ''job-42'',
               emit (GetItem (''123456789012#ap-northeast-2#example-stack'', ''d-1'')) (start example_table))"
    by (simp add: fetchCallbackDetails_def example_key Let_def)
       (simp add: quiet_def example_table_def example_record_def start_def)
  have f2: "fetchCallbackDetails quiet ?e (start example_table) =
              (None,
               emit (GetItem (''123456789012#ap-northeast-2#example-stack'', ''d-2'')) (start example_table))"
    by (simp add: fetchCallbackDetails_def k Let_def)
       (simp add: quiet_def example_table_def start_def)
  show ?thesis
    by (simp add: callback_handler_def f1 f2 sendFailure_def callbacks_def trace_emit
        drifted_message_def)
       (simp add: example_event_def start_def)
qed

section \<open>The drift detection Lambda: properties\<close>

lemmas handler_defs = drift_detect_handler_def detect_block_def persist_block_def catch_report_def
  sendSuccess_def sendFailure_def

lemma scan_start_called:
  assumes "DetectStackDrift r n \<in> set (trace (snd (drift_detect_handler env jobId ps (start t))))"
  shows "\<exists>out s rest. describeStacks env (params.region ps) (stackName ps) = Inr out
           \<and> Stacks out = Some (s # rest) \<and> StackName s = Some (stackName ps)
           \<and> truthy (StackStatus s) \<and> template_text (StackStatus s) \<in> set allowed_dd_status_list"
  using assms
  by (auto simp add: handler_defs trace_emit start_def Let_def
      split: sum.splits option.splits list.splits if_splits prod.splits)

lemma scan_started_run:
  assumes "describeStacks env (params.region ps) (stackName ps) = Inr out"
    and "Stacks out = Some (s # rest)" and "StackName s = Some (stackName ps)"
    and "truthy (StackStatus s)" and "template_text (StackStatus s) \<in> set allowed_dd_status_list"
    and "detectStackDrift env (params.region ps) (stackName ps) = Inr driftResp"
  shows "drift_detect_handler env jobId ps (start t) =
           (case persist_block env jobId ps driftResp
                   \<lparr>table = t, trace = [DescribeStacks (params.region ps) (stackName ps),
                                         DetectStackDrift (params.region ps) (stackName ps)]\<rparr> of
              (Some err, w3) \<Rightarrow>
                 sendFailure env jobId \<lparr>message = JSON_stringify err, type = ''JobFailed''\<rparr> w3
            | (None, w3) \<Rightarrow> (None, w3))"
  using assms
  by (simp add: drift_detect_handler_def detect_block_def emit_def start_def Let_def)

lemma persist_block_stored:
  assumes "StackDriftDetectionId driftResp = Some scanId" and "scanId \<noteq> []"
    and "putItem env (correlation_item jobId ps scanId) = None"
  shows "persist_block env jobId ps driftResp w =
           (None, \<lparr>table = (table w)((params.account ps @ ''#'' @ params.region ps @ ''#'' @ stackName ps, scanId)
                                   \<mapsto> correlation_item jobId ps scanId),
                   trace = trace w @ [PutItem (correlation_item jobId ps scanId)]\<rparr>)"
  using assms
  by (simp add: persist_block_def emit_def Let_def) (simp add: correlation_item_def)

lemma persist_block_no_id:
  assumes "\<not> truthy (StackDriftDetectionId driftResp)"
  shows "persist_block env jobId ps driftResp w =
           (Some (new_Error ''Unknown error: Drift detection id missing''), w)"
  using assms
  by (cases "StackDriftDetectionId driftResp") (simp_all add: persist_block_def)

lemma scan_started_stored:
  assumes "DetectStackDrift r n \<in> set (trace (snd (drift_detect_handler env jobId ps (start t))))"
    and "detectStackDrift env (params.region ps) (stackName ps) = Inr driftResp"
    and "StackDriftDetectionId driftResp = Some scanId" and "scanId \<noteq> []"
    and "putItem env (correlation_item jobId ps scanId) = None"
  shows "drift_detect_handler env jobId ps (start t) =
           (None,
            \<lparr>table = t((params.account ps @ ''#'' @ params.region ps @ ''#'' @ stackName ps, scanId)
                          \<mapsto> correlation_item jobId ps scanId),
             trace = [DescribeStacks (params.region ps) (stackName ps),
                      DetectStackDrift (params.region ps) (stackName ps),
                      PutItem (correlation_item jobId ps scanId)]\<rparr>)"
proof -
  from scan_start_called [OF assms(1)] obtain out s rest where
    "describeStacks env (params.region ps) (stackName ps) = Inr out"
    "Stacks out = Some (s # rest)" "StackName s = Some (stackName ps)"
    "truthy (StackStatus s)" "template_text (StackStatus s) \<in> set allowed_dd_status_list"
    by blast
  then show ?thesis
    by (simp add: scan_started_run [OF _ _ _ _ _ assms(2)] persist_block_stored [OF assms(3-5)])
qed

lemmas example_defs = quiet_def scanning_def rejecting_def stack_in_def example_params_def
  allowed_dd_status_list_def

lemma scanning_run:
  "drift_detect_handler (scanning (Some scanId)) jobId example_params (start t) =
     (case persist_block (scanning (Some scanId)) jobId example_params
             \<lparr>StackDriftDetectionId = Some scanId\<rparr>
             \<lparr>table = t, trace = [DescribeStacks ''us-east-1'' ''demo-stack'',
                                   DetectStackDrift ''us-east-1'' ''demo-stack'']\<rparr> of
        (Some err, w3) \<Rightarrow>
           sendFailure (scanning (Some scanId)) jobId
             \<lparr>message = JSON_stringify err, type = ''JobFailed''\<rparr> w3
      | (None, w3) \<Rightarrow> (None, w3))"
  using scan_started_run [of "scanning (Some scanId)" example_params
      "\<lparr>Stacks = Some [\<lparr>StackName = Some ''demo-stack'', StackStatus = Some ''UPDATE_COMPLETE''\<rparr>]\<rparr>"
      "\<lparr>StackName = Some ''demo-stack'', StackStatus = Some ''UPDATE_COMPLETE''\<rparr>" "[]"
      "\<lparr>StackDriftDetectionId = Some scanId\<rparr>" jobId t]
  by (simp add: example_defs)

lemma scanning_trace:
  "scanId \<noteq> [] \<Longrightarrow>
   drift_detect_handler (scanning (Some scanId)) jobId example_params (start t) =
     (None, \<lparr>table = t((''1#us-east-1#demo-stack'', scanId) \<mapsto>
                       \<lparr>pk = ''1#us-east-1#demo-stack'', sk = scanId, pipeline_job_id = jobId\<rparr>),
             trace = [DescribeStacks ''us-east-1'' ''demo-stack'',
                      DetectStackDrift ''us-east-1'' ''demo-stack'',
                      PutItem \<lparr>pk = ''1#us-east-1#demo-stack'', sk = scanId, pipeline_job_id = jobId\<rparr>]\<rparr>)"
  by (simp add: scanning_run persist_block_def Let_def emit_def correlation_item_def)
     (simp add: example_defs)

lemma scanning_no_id_trace:
  "\<not> truthy scanId \<Longrightarrow>
   trace (snd (drift_detect_handler (scanning scanId) jobId example_params (start t))) =
     [DescribeStacks ''us-east-1'' ''demo-stack'', DetectStackDrift ''us-east-1'' ''demo-stack'',
      PutJobFailureResult jobId \<lparr>message = ''{}'', type = ''JobFailed''\<rparr>]"
  using scan_started_run [of "scanning scanId" example_params
      "\<lparr>Stacks = Some [\<lparr>StackName = Some ''demo-stack'', StackStatus = Some ''UPDATE_COMPLETE''\<rparr>]\<rparr>"
      "\<lparr>StackName = Some ''demo-stack'', StackStatus = Some ''UPDATE_COMPLETE''\<rparr>" "[]"
      "\<lparr>StackDriftDetectionId = scanId\<rparr>" jobId t]
  by (simp add: example_defs persist_block_no_id sendFailure_def trace_emit
      JSON_stringify_def new_Error_def)

text \<open>
  C2. In an invocation that makes the \<open>detectStackDrift\<close> call, where the call returns a
  non-empty drift detection id and \<open>putItem\<close> is accepted, exactly one item is written: it
  has the key \<open>account#region#stackName\<close>, the drift detection id as sort key and the job
  id of the invocation. No success or failure result is sent and the handler resolves.
\<close>

theorem scan_started_writes_one_record:
  assumes "DetectStackDrift r n \<in> set (trace (snd (drift_detect_handler env jobId ps (start t))))"
    and "detectStackDrift env (params.region ps) (stackName ps) = Inr driftResp"
    and "StackDriftDetectionId driftResp = Some scanId" and "scanId \<noteq> []"
    and "putItem env (correlation_item jobId ps scanId) = None"
  shows "writes (snd (drift_detect_handler env jobId ps (start t))) =
           [PutItem \<lparr>pk = params.account ps @ ''#'' @ params.region ps @ ''#'' @ stackName ps,
                     sk = scanId, pipeline_job_id = jobId\<rparr>]
         \<and> table (snd (drift_detect_handler env jobId ps (start t))) =
             t((params.account ps @ ''#'' @ params.region ps @ ''#'' @ stackName ps, scanId)
                 \<mapsto> \<lparr>pk = params.account ps @ ''#'' @ params.region ps @ ''#'' @ stackName ps,
                      sk = scanId, pipeline_job_id = jobId\<rparr>)
         \<and> callbacks (snd (drift_detect_handler env jobId ps (start t))) = []
         \<and> fst (drift_detect_handler env jobId ps (start t)) = None"
  by (simp add: scan_started_stored [OF assms] writes_def callbacks_def correlation_item_def)

theorem scan_started_writes_one_record_witness:
  "writes (snd (drift_detect_handler (scanning (Some ''d-1'')) ''job-7'' example_params (start Map.empty))) =
     [PutItem \<lparr>pk = ''1#us-east-1#demo-stack'', sk = ''d-1'', pipeline_job_id = ''job-7''\<rparr>]
   \<and> callbacks (snd (drift_detect_handler (scanning (Some ''d-1'')) ''job-7'' example_params (start Map.empty))) = []
   \<and> fst (drift_detect_handler (scanning (Some ''d-1'')) ''job-7'' example_params (start Map.empty)) = None"
  using scan_started_writes_one_record [of "''us-east-1''" "''demo-stack''" "scanning (Some ''d-1'')"
      "''job-7''" example_params Map.empty "\<lparr>StackDriftDetectionId = Some ''d-1''\<rparr>" "''d-1''"]
  by (simp add: scanning_trace) (simp add: example_defs)

text \<open>
  C7. In an invocation that makes the \<open>detectStackDrift\<close> call, where the call returns no
  drift detection id or an empty one, one failure result is sent for the job and nothing is
  written. The message of the failure is the stringified \<open>Error\<close> object: the text \<open>{}\<close>,
  not the text \<open>Unknown error: Drift detection id missing\<close> the error was created with.
\<close>

theorem scan_without_id_reports_failure:
  assumes "DetectStackDrift r n \<in> set (trace (snd (drift_detect_handler env jobId ps (start t))))"
    and "detectStackDrift env (params.region ps) (stackName ps) = Inr driftResp"
    and "\<not> truthy (StackDriftDetectionId driftResp)"
  shows "callbacks (snd (drift_detect_handler env jobId ps (start t))) =
           [PutJobFailureResult jobId \<lparr>message = ''{}'', type = ''JobFailed''\<rparr>]
         \<and> writes (snd (drift_detect_handler env jobId ps (start t))) = []
         \<and> table (snd (drift_detect_handler env jobId ps (start t))) = t"
proof -
  from scan_start_called [OF assms(1)] obtain out s rest where
    "describeStacks env (params.region ps) (stackName ps) = Inr out"
    "Stacks out = Some (s # rest)" "StackName s = Some (stackName ps)"
    "truthy (StackStatus s)" "template_text (StackStatus s) \<in> set allowed_dd_status_list"
    by blast
  then show ?thesis
    by (simp add: scan_started_run [OF _ _ _ _ _ assms(2)] persist_block_no_id [OF assms(3)]
        sendFailure_def callbacks_def writes_def trace_emit table_emit
        JSON_stringify_def new_Error_def)
qed

theorem scan_without_id_reports_failure_witness:
  "callbacks (snd (drift_detect_handler (scanning None) ''job-7'' example_params (start Map.empty))) =
     [PutJobFailureResult ''job-7'' \<lparr>message = ''{}'', type = ''JobFailed''\<rparr>]
   \<and> callbacks (snd (drift_detect_handler (scanning (Some [])) ''job-7'' example_params (start Map.empty))) =
     [PutJobFailureResult ''job-7'' \<lparr>message = ''{}'', type = ''JobFailed''\<rparr>]
   \<and> writes (snd (drift_detect_handler (scanning None) ''job-7'' example_params (start Map.empty))) = []"
  using scan_without_id_reports_failure [of "''us-east-1''" "''demo-stack''" "scanning None"
      "''job-7''" example_params Map.empty "\<lparr>StackDriftDetectionId = None\<rparr>"]
    scan_without_id_reports_failure [of "''us-east-1''" "''demo-stack''" "scanning (Some [])"
      "''job-7''" example_params Map.empty "\<lparr>StackDriftDetectionId = Some []\<rparr>"]
  by (simp add: scanning_no_id_trace) (simp add: example_defs)

text \<open>
  C10. When \<open>describeStacks\<close> returns no stack list, an empty one, or a first stack of
  another name, one failure result is sent for the job, no success result is sent and
  nothing is written. The message of the failure is the stringified \<open>Error\<close> object: the
  text \<open>{}\<close>, which holds nothing of the text
  \<open>Unknown error: Check DescribeStacks output\<close> the error was created with.
\<close>

theorem unknown_describe_output_reports_failure:
  assumes "describeStacks env (params.region ps) (stackName ps) = Inr out"
    and "Stacks out = None \<or> Stacks out = Some []
         \<or> (\<exists>s rest. Stacks out = Some (s # rest) \<and> StackName s \<noteq> Some (stackName ps))"
  shows "callbacks (snd (drift_detect_handler env jobId ps (start t))) =
           [PutJobFailureResult jobId \<lparr>message = ''{}'', type = ''JobFailed''\<rparr>]
         \<and> writes (snd (drift_detect_handler env jobId ps (start t))) = []
         \<and> table (snd (drift_detect_handler env jobId ps (start t))) = t"
proof -
  have "detect_block env jobId ps out w =
          (Thrown (new_Error ''Unknown error: Check DescribeStacks output''), w)" for w
    using assms(2) by (auto simp add: detect_block_def)
  moreover have "\<not> is_ValidationError (new_Error ''Unknown error: Check DescribeStacks output'')"
    by (simp add: is_ValidationError_def new_Error_def)
  ultimately show ?thesis
    using assms(1)
    by (simp add: drift_detect_handler_def catch_report_def sendFailure_def callbacks_def
        writes_def trace_emit table_emit start_def Let_def JSON_stringify_def new_Error_def)
qed

theorem unknown_describe_output_reports_failure_witness:
  "callbacks (snd (drift_detect_handler quiet ''job-7'' example_params (start Map.empty))) =
     [PutJobFailureResult ''job-7'' \<lparr>message = ''{}'', type = ''JobFailed''\<rparr>]
   \<and> callbacks (snd (drift_detect_handler
          (quiet\<lparr>describeStacks := (\<lambda>r n. stack_in ''UPDATE_COMPLETE'' r ''other-stack'')\<rparr>)
          ''job-7'' example_params (start Map.empty))) =
     [PutJobFailureResult ''job-7'' \<lparr>message = ''{}'', type = ''JobFailed''\<rparr>]
   \<and> writes (snd (drift_detect_handler quiet ''job-7'' example_params (start Map.empty))) = []"
  using unknown_describe_output_reports_failure [of quiet example_params "\<lparr>Stacks = Some []\<rparr>"
      "''job-7''" Map.empty]
    unknown_describe_output_reports_failure
      [of "quiet\<lparr>describeStacks := (\<lambda>r n. stack_in ''UPDATE_COMPLETE'' r ''other-stack'')\<rparr>"
        example_params
        "\<lparr>Stacks = Some [\<lparr>StackName = Some ''other-stack'', StackStatus = Some ''UPDATE_COMPLETE''\<rparr>]\<rparr>"
        "''job-7''" Map.empty]
  by (simp add: example_defs JSON_stringify_def new_Error_def)

text \<open>
  The benign conditions. A validation error of \<open>describeStacks\<close> or of \<open>detectStackDrift\<close>
  is answered by one success result and no write. For a stack whose status is not in the
  allowed list the success result is sent inside the second \<open>try\<close> block: when CodePipeline
  accepts it, it is the only callback; when CodePipeline rejects it, the \<open>catch\<close> clause
  of the block sends a second result.
\<close>

lemma not_found_reports_success:
  assumes "describeStacks env (params.region ps) (stackName ps) = Inl err"
    and "is_ValidationError err"
  shows "callbacks (snd (drift_detect_handler env jobId ps (start t))) = [PutJobSuccessResult jobId]
         \<and> writes (snd (drift_detect_handler env jobId ps (start t))) = []
         \<and> table (snd (drift_detect_handler env jobId ps (start t))) = t"
  using assms
  by (simp add: drift_detect_handler_def catch_report_def sendSuccess_def callbacks_def writes_def
      trace_emit table_emit start_def Let_def)

lemma scan_not_permitted_reports_success:
  assumes "DetectStackDrift r n \<in> set (trace (snd (drift_detect_handler env jobId ps (start t))))"
    and "detectStackDrift env (params.region ps) (stackName ps) = Inl err"
    and "is_ValidationError err"
  shows "callbacks (snd (drift_detect_handler env jobId ps (start t))) = [PutJobSuccessResult jobId]
         \<and> writes (snd (drift_detect_handler env jobId ps (start t))) = []
         \<and> table (snd (drift_detect_handler env jobId ps (start t))) = t"
proof -
  from scan_start_called [OF assms(1)] obtain out s rest where
    "describeStacks env (params.region ps) (stackName ps) = Inr out"
    "Stacks out = Some (s # rest)" "StackName s = Some (stackName ps)"
    "truthy (StackStatus s)" "template_text (StackStatus s) \<in> set allowed_dd_status_list"
    by blast
  with assms(2,3) show ?thesis
    by (simp add: drift_detect_handler_def detect_block_def catch_report_def sendSuccess_def
        callbacks_def writes_def trace_emit table_emit start_def Let_def)
qed

lemma status_not_allowed_report:
  assumes "describeStacks env (params.region ps) (stackName ps) = Inr out"
    and "Stacks out = Some (s # rest)" and "StackName s = Some (stackName ps)"
    and "\<not> (truthy (StackStatus s) \<and> template_text (StackStatus s) \<in> set allowed_dd_status_list)"
  shows "callbacks (snd (drift_detect_handler env jobId ps (start t))) =
           (case putJobSuccessResult env [DescribeStacks (params.region ps) (stackName ps)] jobId of
              None \<Rightarrow> [PutJobSuccessResult jobId]
            | Some err \<Rightarrow>
                [PutJobSuccessResult jobId,
                 if is_ValidationError err then PutJobSuccessResult jobId
                 else PutJobFailureResult jobId \<lparr>message = JSON_stringify err, type = ''JobFailed''\<rparr>])
         \<and> writes (snd (drift_detect_handler env jobId ps (start t))) = []
         \<and> table (snd (drift_detect_handler env jobId ps (start t))) = t"
proof -
  from assms(4) have unsuitable:
    "(truthy (StackStatus s) \<and> template_text (StackStatus s) \<in> set allowed_dd_status_list) = False"
    by simp
  have "detect_block env jobId ps out w =
          (case sendSuccess env jobId w of
             (Some err, w') \<Rightarrow> (Thrown err, w')
           | (None, w') \<Rightarrow> (Returned, w'))" for w
    using assms(2,3) by (simp add: detect_block_def unsuitable)
  with assms(1) show ?thesis
    by (cases "putJobSuccessResult env [DescribeStacks (params.region ps) (stackName ps)] jobId")
       (simp_all add: drift_detect_handler_def catch_report_def sendSuccess_def
          sendFailure_def callbacks_def writes_def trace_emit table_emit start_def Let_def)
qed

text \<open>
  C3. The stack is \<open>UPDATE_IN_PROGRESS\<close> (not an allowed status) and the success result is
  rejected with a timeout: the handler sends the success result and then a failure result
  for the same job. When the rejection is named \<open>ValidationError\<close>, it sends the success
  result twice.
\<close>

theorem status_not_allowed_rejected_report:
  "\<not> (''UPDATE_IN_PROGRESS'' \<in> set allowed_dd_status_list)
   \<and> callbacks (snd (drift_detect_handler rejecting ''job-7'' example_params (start Map.empty))) =
      [PutJobSuccessResult ''job-7'',
       PutJobFailureResult ''job-7'' \<lparr>message = JSON_stringify timeout_error, type = ''JobFailed''\<rparr>]
   \<and> callbacks (snd (drift_detect_handler
          (rejecting\<lparr>putJobSuccessResult :=
             (\<lambda>h j. if h = [DescribeStacks ''us-east-1'' ''demo-stack'']
                     then Some (JsError (Some ''ValidationError'') None [] ''{}'') else None)\<rparr>)
          ''job-7'' example_params (start Map.empty))) =
      [PutJobSuccessResult ''job-7'', PutJobSuccessResult ''job-7'']"
  by (simp add: drift_detect_handler_def detect_block_def catch_report_def sendSuccess_def
      sendFailure_def callbacks_def trace_emit start_def Let_def example_defs
      is_ValidationError_def timeout_error_def)

lemma same_calls_pair: "same_calls (a, w) (a', w') = (a = a' \<and> trace w = trace w')"
  by (simp add: same_calls_def)

lemma sendSuccess_same_calls:
  "trace w = trace w' \<Longrightarrow> same_calls (sendSuccess env jobId w) (sendSuccess env jobId w')"
  by (simp add: sendSuccess_def same_calls_def trace_emit)

lemma sendFailure_same_calls:
  "trace w = trace w' \<Longrightarrow> same_calls (sendFailure env jobId d w) (sendFailure env jobId d w')"
  by (simp add: sendFailure_def same_calls_def trace_emit)

lemma catch_report_same_calls:
  "trace w = trace w' \<Longrightarrow> same_calls (catch_report env jobId err w) (catch_report env jobId err w')"
  by (simp add: catch_report_def sendSuccess_same_calls sendFailure_same_calls)

lemma detect_block_same_calls:
  assumes "trace w = trace w'"
  shows "same_calls (detect_block env jobId ps out w) (detect_block env jobId ps out w')"
proof (cases "Stacks out")
  case None
  with assms show ?thesis by (simp add: detect_block_def same_calls_def)
next
  case (Some stacks)
  show ?thesis
  proof (cases stacks)
    case Nil
    with Some assms show ?thesis by (simp add: detect_block_def same_calls_def)
  next
    case (Cons s rest)
    from sendSuccess_same_calls [OF assms, of env jobId]
    have "fst (sendSuccess env jobId w) = fst (sendSuccess env jobId w')"
      and "trace (snd (sendSuccess env jobId w)) = trace (snd (sendSuccess env jobId w'))"
      by (simp_all add: same_calls_def)
    with Some Cons assms show ?thesis
      by (cases "sendSuccess env jobId w"; cases "sendSuccess env jobId w'")
         (simp add: detect_block_def same_calls_def trace_emit Let_def
           split: sum.splits option.splits)
  qed
qed

lemma persist_block_same_calls:
  assumes "trace w = trace w'"
  shows "same_calls (persist_block env jobId ps driftResp w) (persist_block env jobId ps driftResp w')"
  using assms
  by (simp add: persist_block_def same_calls_def trace_emit Let_def split: option.splits)

lemma drift_detect_handler_same_calls:
  assumes "trace w = trace w'"
  shows "same_calls (drift_detect_handler env jobId ps w) (drift_detect_handler env jobId ps w')"
proof (cases "describeStacks env (params.region ps) (stackName ps)")
  case (Inl err)
  with assms show ?thesis
    by (simp add: drift_detect_handler_def Let_def catch_report_same_calls trace_emit)
next
  case (Inr out)
  let ?w1 = "emit (DescribeStacks (params.region ps) (stackName ps)) w"
  let ?w1' = "emit (DescribeStacks (params.region ps) (stackName ps)) w'"
  obtain c w2 where d: "detect_block env jobId ps out ?w1 = (c, w2)"
    by (cases "detect_block env jobId ps out ?w1")
  obtain c' w2' where d': "detect_block env jobId ps out ?w1' = (c', w2')"
    by (cases "detect_block env jobId ps out ?w1'")
  have "trace ?w1 = trace ?w1'"
    using assms by (simp add: trace_emit)
  from detect_block_same_calls [OF this, of env jobId ps out] d d'
  have c: "c' = c" and t2: "trace w2 = trace w2'"
    by (simp_all add: same_calls_def)
  show ?thesis
  proof (cases c)
    case (Thrown err)
    with Inr d d' c t2 show ?thesis
      by (simp add: drift_detect_handler_def Let_def catch_report_same_calls)
  next
    case Returned
    with Inr d d' c t2 show ?thesis
      by (simp add: drift_detect_handler_def Let_def same_calls_pair)
  next
    case (Next driftResp)
    obtain e w3 where p: "persist_block env jobId ps driftResp w2 = (e, w3)"
      by (cases "persist_block env jobId ps driftResp w2")
    obtain e' w3' where p': "persist_block env jobId ps driftResp w2' = (e', w3')"
      by (cases "persist_block env jobId ps driftResp w2'")
    from persist_block_same_calls [OF t2, of env jobId ps driftResp] p p'
    have e: "e' = e" and t3: "trace w3 = trace w3'"
      by (simp_all add: same_calls_def)
    from Inr d d' c Next p p' e t3 show ?thesis
      by (cases e) (simp_all add: drift_detect_handler_def Let_def sendFailure_same_calls same_calls_pair)
  qed
qed

lemma sendSuccess_reads: "reads (snd (sendSuccess env jobId w)) = reads w"
  by (simp add: sendSuccess_def reads_def trace_emit)

lemma sendFailure_reads: "reads (snd (sendFailure env jobId d w)) = reads w"
  by (simp add: sendFailure_def reads_def trace_emit)

lemma catch_report_reads: "reads (snd (catch_report env jobId err w)) = reads w"
  by (simp add: catch_report_def sendSuccess_reads sendFailure_reads)

lemma detect_block_reads: "reads (snd (detect_block env jobId ps out w)) = reads w"
proof (cases "sendSuccess env jobId w")
  case (Pair e w')
  with sendSuccess_reads [of env jobId w] have "reads w' = reads w" by simp
  with Pair show ?thesis
    by (simp add: detect_block_def Let_def reads_def trace_emit
        split: option.splits list.splits sum.splits)
qed

lemma persist_block_reads: "reads (snd (persist_block env jobId ps driftResp w)) = reads w"
  by (simp add: persist_block_def Let_def reads_def trace_emit split: option.splits)

lemma drift_detect_handler_reads: "reads (snd (drift_detect_handler env jobId ps w)) = reads w"
proof (cases "describeStacks env (params.region ps) (stackName ps)")
  case (Inl err)
  then show ?thesis
    by (simp add: drift_detect_handler_def Let_def catch_report_reads) (simp add: reads_def trace_emit)
next
  case (Inr out)
  let ?w1 = "emit (DescribeStacks (params.region ps) (stackName ps)) w"
  have r1: "reads ?w1 = reads w" by (simp add: reads_def trace_emit)
  obtain c w2 where d: "detect_block env jobId ps out ?w1 = (c, w2)"
    by (cases "detect_block env jobId ps out ?w1")
  with detect_block_reads [of env jobId ps out ?w1] r1 have r2: "reads w2 = reads w" by simp
  show ?thesis
  proof (cases c)
    case (Thrown err)
    with Inr d r2 show ?thesis by (simp add: drift_detect_handler_def Let_def catch_report_reads)
  next
    case Returned
    with Inr d r2 show ?thesis by (simp add: drift_detect_handler_def Let_def)
  next
    case (Next driftResp)
    obtain e w3 where p: "persist_block env jobId ps driftResp w2 = (e, w3)"
      by (cases "persist_block env jobId ps driftResp w2")
    with persist_block_reads [of env jobId ps driftResp w2] r2 have "reads w3 = reads w" by simp
    with Inr d Next p show ?thesis
      by (cases e) (simp_all add: drift_detect_handler_def Let_def sendFailure_reads)
  qed
qed

text \<open>
  C8. The drift detection Lambda never reads the table: for any two tables it ends the same
  way and sends the same results, it makes no \<open>getItem\<close> call, and a second run on the table
  the first run left sends the same results as the first.
\<close>

theorem drift_detect_handler_ignores_table:
  "fst (drift_detect_handler env jobId ps (start t1)) = fst (drift_detect_handler env jobId ps (start t2))
   \<and> callbacks (snd (drift_detect_handler env jobId ps (start t1)))
       = callbacks (snd (drift_detect_handler env jobId ps (start t2)))
   \<and> reads (snd (drift_detect_handler env jobId ps (start t1))) = []
   \<and> callbacks (snd (drift_detect_handler env jobId ps
         (start (table (snd (drift_detect_handler env jobId ps (start t1)))))))
       = callbacks (snd (drift_detect_handler env jobId ps (start t1)))"
proof -
  have same: "same_calls (drift_detect_handler env jobId ps (start t))
                (drift_detect_handler env jobId ps (start t'))" for t t'
    by (rule drift_detect_handler_same_calls) (simp add: start_def)
  have "reads (snd (drift_detect_handler env jobId ps (start t1))) = []"
    by (simp add: drift_detect_handler_reads) (simp add: reads_def start_def)
  with same [of t1 t2]
    same [of "table (snd (drift_detect_handler env jobId ps (start t1)))" t1]
  show ?thesis
    by (simp add: same_calls_def callbacks_def)
qed

text \<open>
  C5 (as amended). The table holds at most one item per pair of target key and drift
  detection id. After two successful invocations for the same target, the item under the
  later drift detection id holds the later job id; the item of the first invocation is
  replaced only when both scans returned the same drift detection id, and otherwise stays
  in the table beside the second.
\<close>

theorem two_scans_two_keys:
  assumes "DetectStackDrift r1 n1 \<in> set (trace (snd (drift_detect_handler env1 job1 ps (start t))))"
    and "detectStackDrift env1 (params.region ps) (stackName ps) = Inr resp1"
    and "StackDriftDetectionId resp1 = Some scan1" and "scan1 \<noteq> []"
    and "putItem env1 (correlation_item job1 ps scan1) = None"
    and "DetectStackDrift r2 n2 \<in> set (trace (two_runs env1 job1 env2 job2 ps t))"
    and "detectStackDrift env2 (params.region ps) (stackName ps) = Inr resp2"
    and "StackDriftDetectionId resp2 = Some scan2" and "scan2 \<noteq> []"
    and "putItem env2 (correlation_item job2 ps scan2) = None"
  shows "table (two_runs env1 job1 env2 job2 ps t)
           (params.account ps @ ''#'' @ params.region ps @ ''#'' @ stackName ps, scan2)
           = Some \<lparr>pk = params.account ps @ ''#'' @ params.region ps @ ''#'' @ stackName ps,
                   sk = scan2, pipeline_job_id = job2\<rparr>
         \<and> table (two_runs env1 job1 env2 job2 ps t)
           (params.account ps @ ''#'' @ params.region ps @ ''#'' @ stackName ps, scan1)
           = Some \<lparr>pk = params.account ps @ ''#'' @ params.region ps @ ''#'' @ stackName ps,
                   sk = scan1, pipeline_job_id = (if scan1 = scan2 then job2 else job1)\<rparr>
         \<and> table (two_runs env1 job1 env2 job2 ps t) =
             t((params.account ps @ ''#'' @ params.region ps @ ''#'' @ stackName ps, scan1)
                 \<mapsto> correlation_item job1 ps scan1,
               (params.account ps @ ''#'' @ params.region ps @ ''#'' @ stackName ps, scan2)
                 \<mapsto> correlation_item job2 ps scan2)"
proof -
  note first = scan_started_stored [OF assms(1-5)]
  note second = scan_started_stored [OF assms(6) [unfolded two_runs_def] assms(7-10)]
  have "table (two_runs env1 job1 env2 job2 ps t) =
          t((params.account ps @ ''#'' @ params.region ps @ ''#'' @ stackName ps, scan1)
              \<mapsto> correlation_item job1 ps scan1,
            (params.account ps @ ''#'' @ params.region ps @ ''#'' @ stackName ps, scan2)
              \<mapsto> correlation_item job2 ps scan2)"
    unfolding two_runs_def second by (simp add: first)
  then show ?thesis
    by (simp add: correlation_item_def)
qed

theorem two_scans_two_keys_witness:
  "table (two_runs (scanning (Some ''d-1'')) ''job-1'' (scanning (Some ''d-1'')) ''job-2''
            example_params Map.empty)
     = [(''1#us-east-1#demo-stack'', ''d-1'')
          \<mapsto> \<lparr>pk = ''1#us-east-1#demo-stack'', sk = ''d-1'', pipeline_job_id = ''job-2''\<rparr>]"
proof -
  have run: "trace (snd (drift_detect_handler (scanning (Some ''d-1'')) j example_params (start t))) =
          [DescribeStacks ''us-east-1'' ''demo-stack'', DetectStackDrift ''us-east-1'' ''demo-stack'',
           PutItem \<lparr>pk = ''1#us-east-1#demo-stack'', sk = ''d-1'', pipeline_job_id = j\<rparr>]" for j t
    by (simp add: scanning_trace)
  from two_scans_two_keys [of "''us-east-1''" "''demo-stack''" "scanning (Some ''d-1'')" "''job-1''"
      example_params Map.empty "\<lparr>StackDriftDetectionId = Some ''d-1''\<rparr>" "''d-1''"
      "''us-east-1''" "''demo-stack''" "scanning (Some ''d-1'')" "''job-2''"
      "\<lparr>StackDriftDetectionId = Some ''d-1''\<rparr>" "''d-1''"]
  show ?thesis
    by (simp add: run two_runs_def) (simp add: example_defs correlation_item_def)
qed

text \<open>
  C5 as stated fails: two successful invocations for the same target whose scans return the
  ids \<open>d-1\<close> and \<open>d-2\<close> leave two items for that target in the table, the first still
  holding the first job id.
\<close>

theorem second_scan_keeps_first_record:
  "callbacks (snd (drift_detect_handler (scanning (Some ''d-1'')) ''job-1'' example_params
      (start Map.empty))) = []
   \<and> callbacks (two_runs (scanning (Some ''d-1'')) ''job-1'' (scanning (Some ''d-2'')) ''job-2''
            example_params Map.empty) = []
   \<and> table (two_runs (scanning (Some ''d-1'')) ''job-1'' (scanning (Some ''d-2'')) ''job-2''
            example_params Map.empty) (''1#us-east-1#demo-stack'', ''d-1'')
     = Some \<lparr>pk = ''1#us-east-1#demo-stack'', sk = ''d-1'', pipeline_job_id = ''job-1''\<rparr>
   \<and> table (two_runs (scanning (Some ''d-1'')) ''job-1'' (scanning (Some ''d-2'')) ''job-2''
            example_params Map.empty) (''1#us-east-1#demo-stack'', ''d-2'')
     = Some \<lparr>pk = ''1#us-east-1#demo-stack'', sk = ''d-2'', pipeline_job_id = ''job-2''\<rparr>"
  by (simp add: two_runs_def scanning_trace callbacks_def)

section \<open>The callback Lambda on the tables the handlers produce\<close>

lemma sendSuccess_table: "table (snd (sendSuccess env jobId w)) = table w"
  by (simp add: sendSuccess_def table_emit)

lemma sendFailure_table: "table (snd (sendFailure env jobId d w)) = table w"
  by (simp add: sendFailure_def table_emit)

lemma catch_report_table: "table (snd (catch_report env jobId err w)) = table w"
  by (simp add: catch_report_def sendSuccess_table sendFailure_table)

lemma detect_block_table: "table (snd (detect_block env jobId ps out w)) = table w"
proof (cases "sendSuccess env jobId w")
  case (Pair e w')
  with sendSuccess_table [of env jobId w] have "table w' = table w" by simp
  with Pair show ?thesis
    by (simp add: detect_block_def Let_def table_emit
        split: option.splits list.splits sum.splits)
qed

lemma persist_block_table:
  assumes "table (snd (persist_block env jobId ps driftResp w)) k = Some it"
  shows "table w k = Some it \<or> pipeline_job_id it = jobId"
  using assms
  by (auto simp add: persist_block_def Let_def table_emit correlation_item_def
      split: option.splits if_splits)

lemma drift_detect_handler_table:
  assumes "table (snd (drift_detect_handler env jobId ps w)) k = Some it"
  shows "table w k = Some it \<or> pipeline_job_id it = jobId"
proof (cases "describeStacks env (params.region ps) (stackName ps)")
  case (Inl err)
  with assms show ?thesis
    by (simp add: drift_detect_handler_def Let_def catch_report_table table_emit)
next
  case (Inr out)
  let ?w1 = "emit (DescribeStacks (params.region ps) (stackName ps)) w"
  obtain c w2 where d: "detect_block env jobId ps out ?w1 = (c, w2)"
    by (cases "detect_block env jobId ps out ?w1")
  with detect_block_table [of env jobId ps out ?w1] have t2: "table w2 = table w"
    by (simp add: table_emit)
  show ?thesis
  proof (cases c)
    case (Thrown err)
    with Inr d t2 assms show ?thesis
      by (simp add: drift_detect_handler_def Let_def catch_report_table)
  next
    case Returned
    with Inr d t2 assms show ?thesis by (simp add: drift_detect_handler_def Let_def)
  next
    case (Next driftResp)
    obtain e w3 where p: "persist_block env jobId ps driftResp w2 = (e, w3)"
      by (cases "persist_block env jobId ps driftResp w2")
    from Inr d Next p assms have "table w3 k = Some it"
      by (cases e) (simp_all add: drift_detect_handler_def Let_def sendFailure_table)
    with persist_block_table [of env jobId ps driftResp w2 k it] p t2 show ?thesis by simp
  qed
qed

lemma callback_handler_table: "table (snd (callback_handler env ev w)) = table w"
  by (simp add: callback_handler_def fetchCallbackDetails_def sendFailure_table sendSuccess_table
      table_emit Let_def split: option.splits)

lemma reachable_job_ids:
  assumes "reachable t" and "t k = Some it"
  shows "pipeline_job_id it \<noteq> []"
  using assms
proof (induction arbitrary: k it)
  case empty
  then show ?case by simp
next
  case (initiate t jobId env ps)
  from drift_detect_handler_table [OF initiate.prems]
  consider "t k = Some it" | "pipeline_job_id it = jobId"
    by (auto simp add: start_def)
  then show ?case
  proof cases
    case 1
    then show ?thesis by (rule initiate.IH)
  next
    case 2
    with initiate.hyps show ?thesis by simp
  qed
next
  case (callback t env ev)
  then show ?case by (simp add: callback_handler_table start_def)
qed

lemma example_table_reachable: "reachable example_table"
proof -
  let ?ps = "\<lparr>account = ''123456789012'', region = ''ap-northeast-2'', stackName = ''example-stack''\<rparr>"
  have "table (snd (drift_detect_handler (scanning (Some ''d-1'')) ''job-42'' ?ps (start Map.empty)))
          = example_table"
    by (simp add: handler_defs Let_def emit_def start_def scanning_def quiet_def stack_in_def
        allowed_dd_status_list_def correlation_item_def example_table_def example_record_def)
  moreover have "reachable (table (snd (drift_detect_handler (scanning (Some ''d-1'')) ''job-42'' ?ps
      (start Map.empty))))"
    by (rule reachable.initiate [OF reachable.empty]) simp
  ultimately show ?thesis by simp
qed

text \<open>
  C1. On a table the handlers have produced, an event of the expected category whose lookup
  finds a record is dispatched on its drift status: \<open>DRIFTED\<close> gives exactly one failure
  result for the job id of the record, with the message that names the stack id and
  contains \<open>DRIFTED\<close>; \<open>IN_SYNC\<close> gives exactly one success result for that job id; any
  other status gives no callback.
\<close>

theorem callback_handler_dispatch:
  assumes "reachable t"
    and "detail_type ev = ''CloudFormation Drift Detection Status Change''"
    and "getItem env (lookup_key ev) = None"
    and "t (lookup_key ev) = Some it"
  shows "callbacks (snd (callback_handler env ev (start t))) =
          (if stack_drift_status ev = ''DRIFTED'' then
             [PutJobFailureResult (pipeline_job_id it)
                \<lparr>message = ''Stack '' @ stack_id ev @ '' has DRIFTED from its template configuration'',
                 type = ''JobFailed''\<rparr>]
           else if stack_drift_status ev = ''IN_SYNC'' then
             [PutJobSuccessResult (pipeline_job_id it)]
           else [])"
  using callback_handler_dispatch_job [of ev env t it] assms(2-4) reachable_job_ids [OF assms(1,4)]
  by simp

theorem callback_handler_dispatch_witness:
  "callbacks (snd (callback_handler quiet example_event (start example_table))) =
     [PutJobFailureResult ''job-42''
        \<lparr>message = ''Stack arn:aws:cloudformation:ap-northeast-2:123456789012:stack/example-stack/11111111 has DRIFTED from its template configuration'',
         type = ''JobFailed''\<rparr>]
   \<and> callbacks (snd (callback_handler quiet (example_event\<lparr>stack_drift_status := ''IN_SYNC''\<rparr>)
         (start example_table))) = [PutJobSuccessResult ''job-42'']
   \<and> callbacks (snd (callback_handler quiet (example_event\<lparr>stack_drift_status := ''UNKNOWN''\<rparr>)
         (start example_table))) = []"
proof -
  let ?in_sync = "example_event\<lparr>stack_drift_status := ''IN_SYNC''\<rparr>"
  let ?unknown = "example_event\<lparr>stack_drift_status := ''UNKNOWN''\<rparr>"
  have k: "lookup_key ?in_sync = lookup_key example_event"
    "lookup_key ?unknown = lookup_key example_event"
    by (simp_all add: lookup_key_def)
  have found: "example_table (lookup_key example_event) = Some example_record"
    by (simp add: example_key example_table_def)
  have drifted:
    "callbacks (snd (callback_handler quiet example_event (start example_table))) =
       [PutJobFailureResult ''job-42''
          \<lparr>message = ''Stack '' @ stack_id example_event
                       @ '' has DRIFTED from its template configuration'',
           type = ''JobFailed''\<rparr>]"
    using callback_handler_dispatch [of example_table example_event quiet example_record]
      found example_table_reachable
    by (simp add: example_event_def example_record_def quiet_def)
  have in_sync:
    "callbacks (snd (callback_handler quiet ?in_sync (start example_table))) =
       [PutJobSuccessResult ''job-42'']"
    using callback_handler_dispatch [of example_table ?in_sync quiet example_record]
      found example_table_reachable
    by (simp add: k) (simp add: example_event_def example_record_def quiet_def)
  have unknown:
    "callbacks (snd (callback_handler quiet ?unknown (start example_table))) = []"
    using callback_handler_dispatch [of example_table ?unknown quiet example_record]
      found example_table_reachable
    by (simp add: k) (simp add: example_event_def example_record_def quiet_def)
  from drifted in_sync unknown show ?thesis
    by (simp add: example_event_def)
qed

end
